theory Spec2Isabelle
  imports Complex_Main "HOL-Library.AList" "HOL-Library.Sublist"
begin

section \<open>The key-value namespace \<open>env.PR_STATE\<close>\<close>

text \<open>
  The worker keeps all of its state in one Workers KV namespace, \<open>env.PR_STATE\<close>, through
  \<open>get\<close>, \<open>put\<close>, \<open>delete\<close> and \<open>list({prefix})\<close>. The namespace is an association list
  from key to value together with the sequence of mutating calls made on it, so that
  "no write was performed" is a statement about that sequence and not only about the
  contents. Values are held as the object that \<open>JSON.parse\<close> yields for the stored text
  (\<open>JSON.stringify\<close> followed by \<open>JSON.parse\<close> keeps every field the interfaces declare
  and drops the \<open>undefined\<close> ones, which the records below hold as \<open>None\<close>); the queue manager
  reads the namespace at type \<open>QueuedCheck\<close> and the rate limiter at type \<open>RateLimitState\<close>,
  as their casts do. Calls are sequential: one operation runs to its end before the next.
\<close>

datatype 'v kv_write = Put string 'v | Delete string

record 'v KVNamespace =
  entries :: "(string \<times> 'v) list"
  writes :: "'v kv_write list"

definition kv_get :: "'v KVNamespace \<Rightarrow> string \<Rightarrow> 'v option" where
  "kv_get kv key = map_of (entries kv) key"

definition kv_put :: "string \<Rightarrow> 'v \<Rightarrow> 'v KVNamespace \<Rightarrow> 'v KVNamespace" where
  "kv_put key v kv =
     kv\<lparr>entries := AList.update key v (entries kv), writes := writes kv @ [Put key v]\<rparr>"

definition kv_delete :: "string \<Rightarrow> 'v KVNamespace \<Rightarrow> 'v KVNamespace" where
  "kv_delete key kv =
     kv\<lparr>entries := AList.delete key (entries kv), writes := writes kv @ [Delete key]\<rparr>"

text \<open>
  \<open>list({prefix})\<close> names every key that starts with the prefix, each once. The source reads
  only \<open>list.keys\<close> of a single call, so the listing is taken to be complete in that call.
\<close>

definition kv_list :: "string \<Rightarrow> 'v KVNamespace \<Rightarrow> string list" where
  "kv_list pre kv = remdups (filter (prefix pre) (map fst (entries kv)))"

section \<open>Errors and numbers\<close>

text \<open>
  \<open>throw new Error(msg)\<close> is the value \<open>Error msg\<close>; reading a property of \<open>null\<close> is
  \<open>TypeError\<close>. An operation that can throw returns its outcome with the namespace as the
  throw (or the return) leaves it.
\<close>

datatype error = Error string | TypeError

type_synonym 'a result = "error + 'a"

definition NotFound :: error where
  "NotFound = Error ''QueueManager: Check not found in queue''"

definition TooManyRequests :: error where
  "TooManyRequests = Error ''Rate limit exceeded: Too many requests per minute''"

definition TooManyInputTokens :: error where
  "TooManyInputTokens = Error ''Rate limit exceeded: Too many input tokens per minute''"

definition TooManyOutputTokens :: error where
  "TooManyOutputTokens = Error ''Rate limit exceeded: Too many output tokens per minute''"

definition RateLimitExceeded :: "error \<Rightarrow> bool" where
  "RateLimitExceeded e =
     (case e of Error msg \<Rightarrow> prefix ''Rate limit exceeded'' msg | TypeError \<Rightarrow> False)"

text \<open>
  Numbers are the integers the program works with (millisecond clock readings, counters,
  PR numbers), all far inside the range where a JavaScript number is an exact integer.
  \<open>Math.ceil(a / b)\<close> on such integers, \<open>b > 0\<close>:
\<close>

definition Math_ceil_div :: "int \<Rightarrow> int \<Rightarrow> int" where
  "Math_ceil_div a b = - ((- a) div b)"

text \<open>The decimal text a template literal gives an integer.\<close>

function toString_nat :: "nat \<Rightarrow> string" where
  "toString_nat n =
     (if n < 10 then [''0123456789'' ! n]
      else toString_nat (n div 10) @ [''0123456789'' ! (n mod 10)])"
  by pat_completeness auto
termination
  by (relation "measure id") auto

declare toString_nat.simps [simp del]

definition toString :: "int \<Rightarrow> string" where
  "toString i = (if i < 0 then CHR ''-'' # toString_nat (nat (- i)) else toString_nat (nat i))"

section \<open>The records\<close>

record RateLimitState =
  requestCount :: int
  inputTokens :: int
  outputTokens :: int
  timestamp :: int

record PullRequestJob =
  repository :: string
  prNumber :: int
  commentId :: "int option"

text \<open>
  \<open>QueuedCheck\<close> has the three fields of the job and three more. Its \<open>status\<close> is the string
  that was stored: the union type of the interface is a cast on \<open>JSON.parse\<close>, checked by
  nothing at run time.
\<close>

record QueuedCheck = PullRequestJob +
  timestamp :: int
  status :: string
  result :: "string option"

text \<open>
  The object \<open>{ status, isNew }\<close> that \<open>enqueueCheck\<close> resolves to. Its \<open>status\<close> is the
  message text; the field is \<open>statusText\<close> here, \<open>status\<close> being the field of
  \<open>QueuedCheck\<close>.
\<close>

record EnqueueResult =
  statusText :: string
  isNew :: bool

section \<open>QueueManager\<close>

definition getQueueKey :: "'a PullRequestJob_scheme \<Rightarrow> string" where
  "getQueueKey job = ''queue:'' @ repository job @ '':'' @ toString (prNumber job)"

text \<open>
  The three message templates. The leading emoji of each is given by its UTF-8 bytes and
  \<open>\n\<close> by the byte 10.
\<close>

definition inProgressMessage :: "string \<Rightarrow> string" where
  "inProgressMessage st =
     ''> '' @ [CHR 0xE2, CHR 0x8F, CHR 0xB3] @
     '' **Article Check Status**: Check already in progress'' @ [CHR 0x0A, CHR 0x0A] @
     ''Current status: `'' @ st @ ''`''"

definition cooldownMessage :: "int \<Rightarrow> string" where
  "cooldownMessage waitTime =
     ''> '' @ [CHR 0xE2, CHR 0x8F, CHR 0xB0] @ '' **Cooldown Period**'' @ [CHR 0x0A, CHR 0x0A] @
     ''Please wait `'' @ toString waitTime @ ''` seconds before requesting another check.'' @
     [CHR 0x0A, CHR 0x0A] @
     ''_This helps prevent API rate limits and ensures thorough analysis._''"

definition startedMessage :: string where
  "startedMessage =
     ''> '' @ [CHR 0xF0, CHR 0x9F, CHR 0x94, CHR 0x84] @ '' **Article Check Started**'' @
     [CHR 0x0A, CHR 0x0A] @
     ''Your request has been queued and will be processed shortly.''"

text \<open>
  \<open>enqueueCheck\<close> reads the clock twice: \<open>now\<close> is the reading taken after an existing record
  was parsed, \<open>now'\<close> the one that stamps the new record.
\<close>

definition enqueueCheck ::
  "PullRequestJob \<Rightarrow> QueuedCheck KVNamespace \<Rightarrow> int \<Rightarrow> int \<Rightarrow>
     EnqueueResult \<times> QueuedCheck KVNamespace" where
  "enqueueCheck job env now now' =
     (let queueKey = getQueueKey job;
          newCheck = \<lparr>repository = repository job, prNumber = prNumber job,
                      commentId = commentId job, timestamp = now',
                      status = ''pending'', result = None\<rparr>;
          admitted = (\<lparr>statusText = startedMessage, isNew = True\<rparr>,
                      kv_put queueKey newCheck env)
      in case kv_get env queueKey of
           None \<Rightarrow> admitted
         | Some check \<Rightarrow>
             if status check \<noteq> ''completed'' \<and> status check \<noteq> ''failed''
             then (\<lparr>statusText = inProgressMessage (status check), isNew = False\<rparr>, env)
             else
               let cooldownPeriod = 5 * 60 * 1000 in
               if now - timestamp check < cooldownPeriod
               then
                 let waitTime = Math_ceil_div (cooldownPeriod - (now - timestamp check)) 1000
                 in (\<lparr>statusText = cooldownMessage waitTime, isNew = False\<rparr>, env)
               else admitted)"

text \<open>
  \<open>updateCheckStatus\<close>: the optional \<open>result\<close> argument is \<open>None\<close> when it is not passed;
  \<open>if (result)\<close> is true for a string that is not empty.
\<close>

definition updateCheckStatus ::
  "PullRequestJob \<Rightarrow> string \<Rightarrow> string option \<Rightarrow> QueuedCheck KVNamespace \<Rightarrow>
     unit result \<times> QueuedCheck KVNamespace" where
  "updateCheckStatus job newStatus res env =
     (let queueKey = getQueueKey job
      in case kv_get env queueKey of
           None \<Rightarrow> (Inl NotFound, env)
         | Some existing \<Rightarrow>
             let check = existing\<lparr>status := newStatus\<rparr>;
                 check = (case res of
                            None \<Rightarrow> check
                          | Some r \<Rightarrow> if r \<noteq> [] then check\<lparr>result := Some r\<rparr> else check)
             in (Inr (), kv_put queueKey check env))"

definition getQueueStatus :: "PullRequestJob \<Rightarrow> QueuedCheck KVNamespace \<Rightarrow> QueuedCheck option" where
  "getQueueStatus job env = kv_get env (getQueueKey job)"

text \<open>
  \<open>cleanOldChecks\<close>: the \<open>for\<close> loop over the listed keys. A key whose \<open>get\<close> gives \<open>null\<close>
  makes \<open>JSON.parse\<close> return \<open>null\<close>, and \<open>check.timestamp\<close> then throws.
\<close>

fun cleanOldChecks_loop ::
  "int \<Rightarrow> string list \<Rightarrow> QueuedCheck KVNamespace \<Rightarrow> unit result \<times> QueuedCheck KVNamespace" where
  "cleanOldChecks_loop oneHourAgo [] env = (Inr (), env)"
| "cleanOldChecks_loop oneHourAgo (name # keys) env =
     (case kv_get env name of
        None \<Rightarrow> (Inl TypeError, env)
      | Some check \<Rightarrow>
          cleanOldChecks_loop oneHourAgo keys
            (if timestamp check < oneHourAgo then kv_delete name env else env))"

definition cleanOldChecks ::
  "QueuedCheck KVNamespace \<Rightarrow> int \<Rightarrow> unit result \<times> QueuedCheck KVNamespace" where
  "cleanOldChecks env now =
     (let oneHourAgo = now - 3600000;
          keys = kv_list ''queue:'' env
      in cleanOldChecks_loop oneHourAgo keys env)"

section \<open>The rate limiter of the quality checks\<close>

definition requestsPerMinute :: int where "requestsPerMinute = 5"
definition inputTokensPerMinute :: int where "inputTokensPerMinute = 10000"
definition outputTokensPerMinute :: int where "outputTokensPerMinute = 2000"

text \<open>\<open>getRateLimitState\<close> reads the clock only when nothing is stored; \<open>now\<close> is that reading.\<close>

definition getRateLimitState :: "RateLimitState KVNamespace \<Rightarrow> int \<Rightarrow> RateLimitState" where
  "getRateLimitState env now =
     (case kv_get env ''rate_limit'' of
        None \<Rightarrow> \<lparr>requestCount = 0, inputTokens = 0, outputTokens = 0,
                  RateLimitState.timestamp = now\<rparr>
      | Some state \<Rightarrow> state)"

definition updateRateLimitState ::
  "RateLimitState \<Rightarrow> RateLimitState KVNamespace \<Rightarrow> RateLimitState KVNamespace" where
  "updateRateLimitState state env = kv_put ''rate_limit'' state env"

text \<open>
  \<open>checkRateLimit\<close>: \<open>now0\<close> is the clock reading inside \<open>getRateLimitState\<close>, \<open>now\<close> the
  one \<open>checkRateLimit\<close> takes itself.
\<close>

definition checkRateLimit ::
  "int \<Rightarrow> RateLimitState KVNamespace \<Rightarrow> int \<Rightarrow> int \<Rightarrow>
     unit result \<times> RateLimitState KVNamespace" where
  "checkRateLimit tokenCount env now0 now =
     (let loaded = getRateLimitState env now0;
          state = (if now - RateLimitState.timestamp loaded \<ge> 60000
                   then loaded\<lparr>requestCount := 0, inputTokens := 0, outputTokens := 0,
                                RateLimitState.timestamp := now\<rparr>
                   else loaded)
      in if requestCount state \<ge> requestsPerMinute then (Inl TooManyRequests, env)
         else if inputTokens state + tokenCount \<ge> inputTokensPerMinute
         then (Inl TooManyInputTokens, env)
         else (Inr (),
               updateRateLimitState
                 (state\<lparr>requestCount := requestCount state + 1,
                         inputTokens := inputTokens state + tokenCount\<rparr>) env))"

text \<open>
  The closing statements of \<open>validateWithOpenRouter\<close>, after the model's answer has been
  received: the state is loaded again, the estimate of the answer is added to
  \<open>outputTokens\<close>, the limit is checked and the state is stored.
\<close>

definition recordOutput ::
  "int \<Rightarrow> RateLimitState KVNamespace \<Rightarrow> int \<Rightarrow> unit result \<times> RateLimitState KVNamespace" where
  "recordOutput outputTokensThisMinute env now0 =
     (let loaded = getRateLimitState env now0;
          state = loaded\<lparr>outputTokens := outputTokens loaded + outputTokensThisMinute\<rparr>
      in if outputTokens state \<ge> outputTokensPerMinute then (Inl TooManyOutputTokens, env)
         else (Inr (), updateRateLimitState state env))"

text \<open>Consecutive calls of \<open>checkRateLimit\<close>, each given as (token count, clock readings).\<close>

fun checkRateLimit_calls ::
  "(int \<times> int \<times> int) list \<Rightarrow> RateLimitState KVNamespace \<Rightarrow>
     unit result list \<times> RateLimitState KVNamespace" where
  "checkRateLimit_calls [] env = ([], env)"
| "checkRateLimit_calls ((tokenCount, now0, now) # calls) env =
     (case checkRateLimit tokenCount env now0 now of
        (r, env') \<Rightarrow>
          (case checkRateLimit_calls calls env' of (rs, env'') \<Rightarrow> (r # rs, env'')))"

section \<open>Facts about the namespace and the numbers\<close>

lemma Math_ceil_div_ceiling:
  "Math_ceil_div a b = \<lceil>real_of_int a / real_of_int b\<rceil>"
proof -
  have "\<lceil>real_of_int a / real_of_int b\<rceil> = - \<lfloor>real_of_int (- a) / real_of_int b\<rfloor>"
    by (simp add: ceiling_def)
  also have "\<dots> = - ((- a) div b)"
    by (simp only: floor_divide_of_int_eq)
  finally show ?thesis
    by (simp add: Math_ceil_div_def)
qed

text \<open>The text \<open>toString\<close> gives a number that is not negative reads back, digit by digit, as that number.\<close>

lemma digit_value: "k < 10 \<Longrightarrow> of_char (''0123456789'' ! k) = (48 + k :: nat)"
proof -
  assume "k < 10"
  then have "k \<in> {0, 1, 2, 3, 4, 5, 6, 7, 8, 9}" by auto
  then show ?thesis by auto
qed

lemma decimal_toString_nat:
  "foldl (\<lambda>a c. 10 * a + (of_char c - 48)) (0 :: nat) (toString_nat n) = n"
proof (induction n rule: toString_nat.induct)
  case (1 n)
  show ?case
  proof (cases "n < 10")
    case True
    then show ?thesis
      by (subst toString_nat.simps) (simp add: digit_value)
  next
    case False
    have "n mod 10 < 10" by simp
    with False "1.IH" show ?thesis
      by (subst toString_nat.simps) (simp add: digit_value)
  qed
qed

lemma decimal_toString:
  "0 \<le> i \<Longrightarrow> foldl (\<lambda>a c. 10 * a + (of_char c - 48)) (0 :: nat) (toString i) = nat i"
  by (simp add: toString_def decimal_toString_nat)

lemma kv_get_put: "kv_get (kv_put k v kv) k' = (if k' = k then Some v else kv_get kv k')"
  by (simp add: kv_get_def kv_put_def update_conv')

lemma kv_get_delete: "kv_get (kv_delete k kv) k' = (if k' = k then None else kv_get kv k')"
  by (simp add: kv_get_def kv_delete_def delete_conv')

lemma set_kv_list: "set (kv_list pre kv) = {k. prefix pre k \<and> kv_get kv k \<noteq> None}"
  unfolding kv_list_def kv_get_def
  by (auto simp: map_of_eq_None_iff image_iff)

lemma distinct_kv_list: "distinct (kv_list pre kv)"
  by (simp add: kv_list_def)

section \<open>The branches of the queue manager\<close>

lemma prefix_getQueueKey: "prefix ''queue:'' (getQueueKey job)"
  by (simp add: getQueueKey_def)

lemma enqueueCheck_absent:
  "kv_get env (getQueueKey job) = None \<Longrightarrow>
   enqueueCheck job env now now' =
     (\<lparr>statusText = startedMessage, isNew = True\<rparr>,
      kv_put (getQueueKey job)
        \<lparr>repository = repository job, prNumber = prNumber job, commentId = commentId job,
         timestamp = now', status = ''pending'', result = None\<rparr> env)"
  by (simp add: enqueueCheck_def Let_def)

lemma enqueueCheck_busy:
  "kv_get env (getQueueKey job) = Some check \<Longrightarrow>
   status check \<noteq> ''completed'' \<Longrightarrow> status check \<noteq> ''failed'' \<Longrightarrow>
   enqueueCheck job env now now' =
     (\<lparr>statusText = inProgressMessage (status check), isNew = False\<rparr>, env)"
  by (simp add: enqueueCheck_def Let_def)

lemma enqueueCheck_terminal:
  "kv_get env (getQueueKey job) = Some check \<Longrightarrow>
   status check = ''completed'' \<or> status check = ''failed'' \<Longrightarrow>
   enqueueCheck job env now now' =
     (if now - timestamp check < 300000
      then (\<lparr>statusText = cooldownMessage (Math_ceil_div (300000 - (now - timestamp check)) 1000),
             isNew = False\<rparr>, env)
      else (\<lparr>statusText = startedMessage, isNew = True\<rparr>,
            kv_put (getQueueKey job)
              \<lparr>repository = repository job, prNumber = prNumber job, commentId = commentId job,
               timestamp = now', status = ''pending'', result = None\<rparr> env))"
  by (auto simp add: enqueueCheck_def Let_def)

lemma cleanOldChecks_loop_sound:
  "distinct keys \<Longrightarrow> \<forall>k \<in> set keys. kv_get env k \<noteq> None \<Longrightarrow>
   fst (cleanOldChecks_loop h keys env) = Inr () \<and>
   (\<forall>k. kv_get (snd (cleanOldChecks_loop h keys env)) k =
      (case kv_get env k of
         None \<Rightarrow> None
       | Some check \<Rightarrow> if k \<in> set keys \<and> timestamp check < h then None else Some check))"
proof (induction keys arbitrary: env)
  case Nil
  show ?case by (simp split: option.splits)
next
  case (Cons name keys)
  from Cons.prems obtain check where c: "kv_get env name = Some check" by auto
  define env' where "env' = (if timestamp check < h then kv_delete name env else env)"
  have other: "kv_get env' k = kv_get env k" if "k \<noteq> name" for k
    using that by (simp add: env'_def kv_get_delete)
  have "\<forall>k \<in> set keys. kv_get env' k \<noteq> None"
  proof
    fix k assume k: "k \<in> set keys"
    with Cons.prems have "k \<noteq> name" by auto
    with k Cons.prems show "kv_get env' k \<noteq> None" by (simp add: other)
  qed
  with Cons.IH [of env'] Cons.prems
  have ih: "fst (cleanOldChecks_loop h keys env') = Inr ()"
    "\<And>k. kv_get (snd (cleanOldChecks_loop h keys env')) k =
      (case kv_get env' k of
         None \<Rightarrow> None
       | Some check \<Rightarrow> if k \<in> set keys \<and> timestamp check < h then None else Some check)"
    by auto
  have step: "cleanOldChecks_loop h (name # keys) env = cleanOldChecks_loop h keys env'"
    by (simp add: c env'_def)
  have name: "kv_get env' name = (if timestamp check < h then None else Some check)"
    by (simp add: env'_def kv_get_delete c)
  show ?case
  proof (intro conjI allI)
    show "fst (cleanOldChecks_loop h (name # keys) env) = Inr ()"
      by (simp only: step ih)
    fix k
    show "kv_get (snd (cleanOldChecks_loop h (name # keys) env)) k =
      (case kv_get env k of
         None \<Rightarrow> None
       | Some check \<Rightarrow> if k \<in> set (name # keys) \<and> timestamp check < h then None else Some check)"
    proof -
      have after: "kv_get (snd (cleanOldChecks_loop h (name # keys) env)) k =
        (case kv_get env' k of
           None \<Rightarrow> None
         | Some check \<Rightarrow> if k \<in> set keys \<and> timestamp check < h then None else Some check)"
        by (simp only: step ih(2))
      show ?thesis
      proof (cases "k = name")
        case True
        with Cons.prems have "name \<notin> set keys" by simp
        then show ?thesis
          unfolding after using True by (simp add: name c)
      next
        case False
        then show ?thesis
          unfolding after by (simp add: other split: option.splits)
      qed
    qed
  qed
qed

lemma cleanOldChecks_get:
  "fst (cleanOldChecks env now) = Inr () \<and>
   kv_get (snd (cleanOldChecks env now)) k =
     (case kv_get env k of
        None \<Rightarrow> None
      | Some check \<Rightarrow>
          if prefix ''queue:'' k \<and> timestamp check < now - 3600000 then None else Some check)"
proof -
  have d: "distinct (kv_list ''queue:'' env)" by (rule distinct_kv_list)
  have e: "\<forall>k \<in> set (kv_list ''queue:'' env). kv_get env k \<noteq> None"
    by (simp add: set_kv_list)
  from cleanOldChecks_loop_sound [OF d e, of "now - 3600000"]
  show ?thesis
    by (auto simp: cleanOldChecks_def Let_def set_kv_list split: option.splits)
qed

section \<open>Admission\<close>



text \<open>
  C4. When the job's key holds a record whose status is \<open>pending\<close> or \<open>processing\<close>,
  \<open>enqueueCheck\<close> answers \<open>isNew = false\<close> with the in-progress message, which contains
  the record's status, and leaves the namespace as it was: no write is made and the key
  still holds the same record, timestamp included.
\<close>

theorem enqueueCheck_in_flight_rejected:
  assumes "kv_get env (getQueueKey job) = Some check"
      and "status check = ''pending'' \<or> status check = ''processing''"
  shows "enqueueCheck job env now now' =
           (\<lparr>statusText = inProgressMessage (status check), isNew = False\<rparr>, env) \<and>
         (\<exists>before after. inProgressMessage (status check) = before @ status check @ after) \<and>
         writes (snd (enqueueCheck job env now now')) = writes env \<and>
         getQueueStatus job (snd (enqueueCheck job env now now')) = Some check"
proof -
  from assms(2) have "status check \<noteq> ''completed''" "status check \<noteq> ''failed''"
    by auto
  with assms(1) have run: "enqueueCheck job env now now' =
      (\<lparr>statusText = inProgressMessage (status check), isNew = False\<rparr>, env)"
    by (rule enqueueCheck_busy)
  have "inProgressMessage (status check) =
      (''> '' @ [CHR 0xE2, CHR 0x8F, CHR 0xB3] @
       '' **Article Check Status**: Check already in progress'' @ [CHR 0x0A, CHR 0x0A] @
       ''Current status: `'') @ status check @ ''`''"
    by (simp add: inProgressMessage_def)
  then have "\<exists>before after. inProgressMessage (status check) = before @ status check @ after"
    by blast
  with run assms(1) show ?thesis
    by (simp add: getQueueStatus_def)
qed

theorem enqueueCheck_in_flight_rejected_witness:
  "(let job = \<lparr>repository = ''acme/repo'', prNumber = 42, commentId = Some 8\<rparr>;
        running = \<lparr>repository = ''acme/repo'', prNumber = 42, commentId = Some 7,
                   timestamp = 1000, status = ''processing'', result = None\<rparr>;
        env = \<lparr>entries = [(''queue:acme/repo:42'', running)],
               writes = [Put ''queue:acme/repo:42'' running]\<rparr>
    in kv_get env (getQueueKey job) = Some running \<and>
       (status running = ''pending'' \<or> status running = ''processing'') \<and>
       enqueueCheck job env 99999999 99999999 =
         (\<lparr>statusText = inProgressMessage ''processing'', isNew = False\<rparr>, env) \<and>
       getQueueStatus job (snd (enqueueCheck job env 99999999 99999999)) = Some running)"
  using
    enqueueCheck_in_flight_rejected
      [of "\<lparr>entries = [(''queue:acme/repo:42'',
              \<lparr>repository = ''acme/repo'', prNumber = 42, commentId = Some 7,
               timestamp = 1000, status = ''processing'', result = None\<rparr>)],
            writes = [Put ''queue:acme/repo:42''
              \<lparr>repository = ''acme/repo'', prNumber = 42, commentId = Some 7,
               timestamp = 1000, status = ''processing'', result = None\<rparr>]\<rparr>"
          "\<lparr>repository = ''acme/repo'', prNumber = 42, commentId = Some 8\<rparr>"
          "\<lparr>repository = ''acme/repo'', prNumber = 42, commentId = Some 7,
               timestamp = 1000, status = ''processing'', result = None\<rparr>"
          99999999 99999999]
  by (simp add: Let_def kv_get_def getQueueStatus_def getQueueKey_def toString_def toString_nat.simps)

text \<open>
  C2, as stated, fails on the bound of 300: a \<open>failed\<close> record stamped 500 ms later than
  the clock reading is less than 300000 ms old, and \<open>enqueueCheck\<close> asks to wait 301 seconds.
\<close>

theorem enqueueCheck_cooldown_future_stamp:
  "kv_get
     \<lparr>entries = [(''queue:acme/repo:42'',
        \<lparr>repository = ''acme/repo'', prNumber = 42, commentId = None,
         timestamp = 1000500, status = ''failed'', result = Some ''boom''\<rparr>)], writes = []\<rparr>
     (getQueueKey \<lparr>repository = ''acme/repo'', prNumber = 42, commentId = None\<rparr>) =
     Some \<lparr>repository = ''acme/repo'', prNumber = 42, commentId = None,
           timestamp = 1000500, status = ''failed'', result = Some ''boom''\<rparr> \<and>
   (1000000 :: int) - 1000500 < 300000 \<and>
   enqueueCheck \<lparr>repository = ''acme/repo'', prNumber = 42, commentId = None\<rparr>
     \<lparr>entries = [(''queue:acme/repo:42'',
        \<lparr>repository = ''acme/repo'', prNumber = 42, commentId = None,
         timestamp = 1000500, status = ''failed'', result = Some ''boom''\<rparr>)], writes = []\<rparr>
     1000000 1000001 =
     (\<lparr>statusText = cooldownMessage 301, isNew = False\<rparr>,
      \<lparr>entries = [(''queue:acme/repo:42'',
        \<lparr>repository = ''acme/repo'', prNumber = 42, commentId = None,
         timestamp = 1000500, status = ''failed'', result = Some ''boom''\<rparr>)], writes = []\<rparr>) \<and>
   \<lceil>real_of_int (300000 - (1000000 - 1000500)) / 1000\<rceil> = (301 :: int) \<and>
   toString 301 = ''301'' \<and>
   \<not> (301 :: int) \<le> 300"
proof -
  have "\<lceil>real_of_int (300000 - (1000000 - 1000500)) / 1000\<rceil> = (301 :: int)"
    by simp
  moreover have "toString 301 = ''301''"
    by code_simp
  moreover have "kv_get
     \<lparr>entries = [(''queue:acme/repo:42'',
        \<lparr>repository = ''acme/repo'', prNumber = 42, commentId = None,
         timestamp = 1000500, status = ''failed'', result = Some ''boom''\<rparr>)], writes = []\<rparr>
     (getQueueKey \<lparr>repository = ''acme/repo'', prNumber = 42, commentId = None\<rparr>) =
     Some \<lparr>repository = ''acme/repo'', prNumber = 42, commentId = None,
           timestamp = 1000500, status = ''failed'', result = Some ''boom''\<rparr>"
    by code_simp
  moreover have "enqueueCheck \<lparr>repository = ''acme/repo'', prNumber = 42, commentId = None\<rparr>
     \<lparr>entries = [(''queue:acme/repo:42'',
        \<lparr>repository = ''acme/repo'', prNumber = 42, commentId = None,
         timestamp = 1000500, status = ''failed'', result = Some ''boom''\<rparr>)], writes = []\<rparr>
     1000000 1000001 =
     (\<lparr>statusText = cooldownMessage 301, isNew = False\<rparr>,
      \<lparr>entries = [(''queue:acme/repo:42'',
        \<lparr>repository = ''acme/repo'', prNumber = 42, commentId = None,
         timestamp = 1000500, status = ''failed'', result = Some ''boom''\<rparr>)], writes = []\<rparr>)"
    by code_simp
  ultimately show ?thesis
    by simp
qed

text \<open>
  C2, amended. When the job's key holds a record whose status is \<open>completed\<close> or \<open>failed\<close>
  and whose timestamp is less than 300000 ms before the clock reading, \<open>enqueueCheck\<close>
  answers \<open>isNew = false\<close> and makes no write; its message is the cool-down text with the
  wait \<open>\<lceil>(300000 - (now - timestamp)) / 1000\<rceil>\<close> written in decimal between the backquotes.
  The wait is positive; it is at most 300 when the timestamp is not later than the clock
  reading, and it is 100, written \<open>100\<close>, for a record that is 200000 ms old.
\<close>

theorem enqueueCheck_cooldown_wait:
  assumes "kv_get env (getQueueKey job) = Some check"
      and "status check = ''completed'' \<or> status check = ''failed''"
      and "now - timestamp check < 300000"
  shows "(let waitTime = \<lceil>real_of_int (300000 - (now - timestamp check)) / 1000\<rceil>
          in enqueueCheck job env now now' =
               (\<lparr>statusText = cooldownMessage waitTime, isNew = False\<rparr>, env) \<and>
             statusText (fst (enqueueCheck job env now now')) =
               ''> '' @ [CHR 0xE2, CHR 0x8F, CHR 0xB0] @ '' **Cooldown Period**'' @
               [CHR 0x0A, CHR 0x0A] @ ''Please wait `'' @ toString waitTime @
               ''` seconds before requesting another check.'' @ [CHR 0x0A, CHR 0x0A] @
               ''_This helps prevent API rate limits and ensures thorough analysis._'' \<and>
             foldl (\<lambda>a c. 10 * a + (of_char c - 48)) (0 :: nat) (toString waitTime) =
               nat waitTime \<and>
             0 < waitTime \<and>
             (timestamp check \<le> now \<longrightarrow> waitTime \<le> 300) \<and>
             (now - timestamp check = 200000 \<longrightarrow>
                waitTime = 100 \<and> toString waitTime = ''100'')) \<and>
         writes (snd (enqueueCheck job env now now')) = writes env \<and>
         getQueueStatus job (snd (enqueueCheck job env now now')) = Some check"
proof -
  define waitTime where "waitTime = Math_ceil_div (300000 - (now - timestamp check)) 1000"
  have w: "\<lceil>real_of_int (300000 - (now - timestamp check)) / 1000\<rceil> = waitTime"
    using Math_ceil_div_ceiling [of "300000 - (now - timestamp check)" 1000]
    by (simp add: waitTime_def)
  have run: "enqueueCheck job env now now' =
      (\<lparr>statusText = cooldownMessage waitTime, isNew = False\<rparr>, env)"
    using enqueueCheck_terminal [OF assms(1) assms(2), of now now'] assms(3)
    by (simp add: waitTime_def)
  have msg: "statusText (fst (enqueueCheck job env now now')) =
      ''> '' @ [CHR 0xE2, CHR 0x8F, CHR 0xB0] @ '' **Cooldown Period**'' @
      [CHR 0x0A, CHR 0x0A] @ ''Please wait `'' @ toString waitTime @
      ''` seconds before requesting another check.'' @ [CHR 0x0A, CHR 0x0A] @
      ''_This helps prevent API rate limits and ensures thorough analysis._''"
    by (simp only: run fst_conv EnqueueResult.simps cooldownMessage_def)
  have pos: "0 < waitTime"
    using assms(3) unfolding waitTime_def Math_ceil_div_def by linarith
  have digits: "foldl (\<lambda>a c. 10 * a + (of_char c - 48)) (0 :: nat) (toString waitTime) =
      nat waitTime"
    using pos by (simp add: decimal_toString)
  have le: "waitTime \<le> 300" if "timestamp check \<le> now"
    using that unfolding waitTime_def Math_ceil_div_def by linarith
  have hundred: "waitTime = 100" if "now - timestamp check = 200000"
    using that unfolding waitTime_def Math_ceil_div_def by simp
  have hundred_text: "toString (100 :: int) = ''100''"
    by code_simp
  have frame: "writes (snd (enqueueCheck job env now now')) = writes env"
    "getQueueStatus job (snd (enqueueCheck job env now now')) = Some check"
    using assms(1) by (simp_all add: run getQueueStatus_def)
  show ?thesis
    unfolding w Let_def
    using run msg digits pos le hundred hundred_text frame by auto
qed

theorem enqueueCheck_cooldown_wait_witness:
  "kv_get
     \<lparr>entries = [(''queue:acme/repo:42'',
        \<lparr>repository = ''acme/repo'', prNumber = 42, commentId = None,
         timestamp = 1000000, status = ''completed'', result = Some ''ok''\<rparr>)], writes = []\<rparr>
     (getQueueKey \<lparr>repository = ''acme/repo'', prNumber = 42, commentId = None\<rparr>) =
     Some \<lparr>repository = ''acme/repo'', prNumber = 42, commentId = None,
           timestamp = 1000000, status = ''completed'', result = Some ''ok''\<rparr> \<and>
   (1200000 :: int) - 1000000 < 300000 \<and> (1000000 :: int) \<le> 1200000 \<and>
   enqueueCheck \<lparr>repository = ''acme/repo'', prNumber = 42, commentId = None\<rparr>
     \<lparr>entries = [(''queue:acme/repo:42'',
        \<lparr>repository = ''acme/repo'', prNumber = 42, commentId = None,
         timestamp = 1000000, status = ''completed'', result = Some ''ok''\<rparr>)], writes = []\<rparr>
     1200000 1200001 =
     (\<lparr>statusText =
         ''> '' @ [CHR 0xE2, CHR 0x8F, CHR 0xB0] @ '' **Cooldown Period**'' @
         [CHR 0x0A, CHR 0x0A] @ ''Please wait `100` seconds before requesting another check.'' @
         [CHR 0x0A, CHR 0x0A] @
         ''_This helps prevent API rate limits and ensures thorough analysis._'',
       isNew = False\<rparr>,
      \<lparr>entries = [(''queue:acme/repo:42'',
        \<lparr>repository = ''acme/repo'', prNumber = 42, commentId = None,
         timestamp = 1000000, status = ''completed'', result = Some ''ok''\<rparr>)], writes = []\<rparr>)"
proof -
  have h: "kv_get
     \<lparr>entries = [(''queue:acme/repo:42'',
        \<lparr>repository = ''acme/repo'', prNumber = 42, commentId = None,
         timestamp = 1000000, status = ''completed'', result = Some ''ok''\<rparr>)], writes = []\<rparr>
     (getQueueKey \<lparr>repository = ''acme/repo'', prNumber = 42, commentId = None\<rparr>) =
     Some \<lparr>repository = ''acme/repo'', prNumber = 42, commentId = None,
           timestamp = 1000000, status = ''completed'', result = Some ''ok''\<rparr>"
    by code_simp
  have s: "status \<lparr>repository = ''acme/repo'', prNumber = 42, commentId = None,
           timestamp = 1000000, status = ''completed'', result = Some ''ok''\<rparr> = ''completed'' \<or>
      status \<lparr>repository = ''acme/repo'', prNumber = 42, commentId = None,
           timestamp = 1000000, status = ''completed'', result = Some ''ok''\<rparr> = ''failed''"
    by simp
  have y: "(1200000 :: int) - timestamp \<lparr>repository = ''acme/repo'', prNumber = 42,
           commentId = None, timestamp = 1000000, status = ''completed'',
           result = Some ''ok''\<rparr> < 300000"
    by simp
  have m: "cooldownMessage 100 =
      ''> '' @ [CHR 0xE2, CHR 0x8F, CHR 0xB0] @ '' **Cooldown Period**'' @
      [CHR 0x0A, CHR 0x0A] @ ''Please wait `100` seconds before requesting another check.'' @
      [CHR 0x0A, CHR 0x0A] @
      ''_This helps prevent API rate limits and ensures thorough analysis._''"
    by code_simp
  show ?thesis
    using h m enqueueCheck_cooldown_wait [OF h s y, of 1200001]
    by (simp add: Let_def)
qed

text \<open>
  C9. When the job's key holds a record whose status is any string other than
  \<open>completed\<close> and \<open>failed\<close>, whether or not it is one of the four documented ones,
  \<open>enqueueCheck\<close> answers \<open>isNew = false\<close> with the in-progress message and makes no
  write, whatever the clock readings and the record's timestamp are: the cool-down
  comparison plays no part. The record stays through every sweep made while its timestamp
  is not more than 3600000 ms old, so the key stays blocked; a sweep made once it is
  older removes it, and the key then admits a new check.
\<close>

theorem enqueueCheck_unknown_status_blocks:
  assumes "kv_get env (getQueueKey job) = Some check"
      and "status check \<noteq> ''completed''" and "status check \<noteq> ''failed''"
  shows "(\<forall>now now'. enqueueCheck job env now now' =
            (\<lparr>statusText = inProgressMessage (status check), isNew = False\<rparr>, env)) \<and>
         (\<forall>t. t - 3600000 \<le> timestamp check \<longrightarrow>
            getQueueStatus job (snd (cleanOldChecks env t)) = Some check) \<and>
         (\<forall>t now now'. timestamp check < t - 3600000 \<longrightarrow>
            getQueueStatus job (snd (cleanOldChecks env t)) = None \<and>
            isNew (fst (enqueueCheck job (snd (cleanOldChecks env t)) now now')))"
proof (intro conjI allI impI)
  fix now now'
  show "enqueueCheck job env now now' =
      (\<lparr>statusText = inProgressMessage (status check), isNew = False\<rparr>, env)"
    using assms by (rule enqueueCheck_busy)
next
  fix t assume "t - 3600000 \<le> timestamp check"
  then show "getQueueStatus job (snd (cleanOldChecks env t)) = Some check"
    using cleanOldChecks_get [of env t "getQueueKey job"] assms(1)
    by (simp add: getQueueStatus_def)
next
  fix t now now' assume old: "timestamp check < t - 3600000"
  then show gone: "getQueueStatus job (snd (cleanOldChecks env t)) = None"
    using cleanOldChecks_get [of env t "getQueueKey job"] assms(1)
    by (simp add: getQueueStatus_def prefix_getQueueKey)
  then show "isNew (fst (enqueueCheck job (snd (cleanOldChecks env t)) now now'))"
    by (simp add: getQueueStatus_def enqueueCheck_absent)
qed

theorem enqueueCheck_unknown_status_blocks_witness:
  "(let job = \<lparr>repository = ''acme/repo'', prNumber = 42, commentId = None\<rparr>;
        odd = \<lparr>repository = ''acme/repo'', prNumber = 42, commentId = None,
               timestamp = 1000000, status = ''undefined'', result = None\<rparr>;
        env = \<lparr>entries = [(''queue:acme/repo:42'', odd)], writes = []\<rparr>
    in kv_get env (getQueueKey job) = Some odd \<and>
       status odd \<noteq> ''completed'' \<and> status odd \<noteq> ''failed'' \<and>
       enqueueCheck job env 1000001 1000002 =
         (\<lparr>statusText = inProgressMessage ''undefined'', isNew = False\<rparr>, env) \<and>
       enqueueCheck job env 4600000 4600001 =
         (\<lparr>statusText = inProgressMessage ''undefined'', isNew = False\<rparr>, env) \<and>
       (4600000 :: int) - 3600000 \<le> timestamp odd \<and>
       getQueueStatus job (snd (cleanOldChecks env 4600000)) = Some odd \<and>
       timestamp odd < (4600001 :: int) - 3600000 \<and>
       getQueueStatus job (snd (cleanOldChecks env 4600001)) = None \<and>
       isNew (fst (enqueueCheck job (snd (cleanOldChecks env 4600001)) 4600002 4600003)))"
  using
    enqueueCheck_unknown_status_blocks
      [of "\<lparr>entries = [(''queue:acme/repo:42'',
              \<lparr>repository = ''acme/repo'', prNumber = 42, commentId = None,
               timestamp = 1000000, status = ''undefined'', result = None\<rparr>)],
            writes = []\<rparr>"
          "\<lparr>repository = ''acme/repo'', prNumber = 42, commentId = None\<rparr>"
          "\<lparr>repository = ''acme/repo'', prNumber = 42, commentId = None,
               timestamp = 1000000, status = ''undefined'', result = None\<rparr>"]
  by (simp add: Let_def kv_get_def getQueueKey_def toString_def toString_nat.simps)

section \<open>Status transitions\<close>

lemma writes_kv_put: "writes (kv_put k v kv) = writes kv @ [Put k v]"
  by (simp add: kv_put_def)

lemma updateCheckStatus_present:
  "kv_get env (getQueueKey job) = Some check \<Longrightarrow>
   updateCheckStatus job newStatus res env =
     (Inr (),
      kv_put (getQueueKey job)
        (check\<lparr>status := newStatus,
               result := (case res of
                            None \<Rightarrow> result check
                          | Some r \<Rightarrow> if r \<noteq> [] then Some r else result check)\<rparr>) env)"
  by (simp add: updateCheckStatus_def Let_def split: option.splits)

lemma updateCheckStatus_absent:
  "kv_get env (getQueueKey job) = None \<Longrightarrow>
   updateCheckStatus job newStatus res env = (Inl NotFound, env)"
  by (simp add: updateCheckStatus_def Let_def)

text \<open>
  C5, as stated, fails on an empty result: \<open>updateCheckStatus(job, "failed", "")\<close> on a
  record without a result stores the new status and leaves the result unset, because
  \<open>if (result)\<close> is false for the empty string.
\<close>

theorem updateCheckStatus_empty_result_not_stored:
  "kv_get \<lparr>entries = [(''queue:acme/repo:42'',
              \<lparr>repository = ''acme/repo'', prNumber = 42, commentId = None,
               timestamp = 1000, status = ''processing'', result = None\<rparr>)], writes = []\<rparr>
     (getQueueKey \<lparr>repository = ''acme/repo'', prNumber = 42, commentId = None\<rparr>) =
     Some \<lparr>repository = ''acme/repo'', prNumber = 42, commentId = None,
           timestamp = 1000, status = ''processing'', result = None\<rparr> \<and>
   getQueueStatus \<lparr>repository = ''acme/repo'', prNumber = 42, commentId = None\<rparr>
     (snd (updateCheckStatus \<lparr>repository = ''acme/repo'', prNumber = 42, commentId = None\<rparr>
             ''failed'' (Some '''')
             \<lparr>entries = [(''queue:acme/repo:42'',
                \<lparr>repository = ''acme/repo'', prNumber = 42, commentId = None,
                 timestamp = 1000, status = ''processing'', result = None\<rparr>)], writes = []\<rparr>)) =
     Some \<lparr>repository = ''acme/repo'', prNumber = 42, commentId = None,
           timestamp = 1000, status = ''failed'', result = None\<rparr> \<and>
   (None :: string option) \<noteq> Some ''''"
  by (simp add: updateCheckStatus_def getQueueStatus_def Let_def kv_get_def kv_put_def
        getQueueKey_def toString_def toString_nat.simps)

text \<open>
  C5, amended. \<open>updateCheckStatus\<close> fails with the not-found error exactly when the job's
  key holds no record, and then writes nothing. When the key holds a record, it succeeds and
  puts the record back with the status set to the given one and with the result set to
  the result argument when that argument is given and is not the empty string; without a
  result argument, or with an empty one, the result field keeps its value.
\<close>

theorem updateCheckStatus_NotFound_iff:
  "(fst (updateCheckStatus job newStatus res env) = Inl NotFound \<longleftrightarrow>
      kv_get env (getQueueKey job) = None) \<and>
   (kv_get env (getQueueKey job) = None \<longrightarrow>
      snd (updateCheckStatus job newStatus res env) = env) \<and>
   (\<forall>check. kv_get env (getQueueKey job) = Some check \<longrightarrow>
      updateCheckStatus job newStatus res env =
        (Inr (),
         kv_put (getQueueKey job)
           (check\<lparr>status := newStatus,
                  result := (case res of
                               None \<Rightarrow> result check
                             | Some r \<Rightarrow> if r \<noteq> [] then Some r else result check)\<rparr>) env) \<and>
      getQueueStatus job (snd (updateCheckStatus job newStatus res env)) =
        Some (check\<lparr>status := newStatus,
                    result := (case res of
                                 None \<Rightarrow> result check
                               | Some r \<Rightarrow> if r \<noteq> [] then Some r else result check)\<rparr>))"
proof (cases "kv_get env (getQueueKey job)")
  case None
  then show ?thesis
    by (simp add: updateCheckStatus_absent)
next
  case (Some check)
  then show ?thesis
    by (simp add: updateCheckStatus_present getQueueStatus_def kv_get_put)
qed

theorem updateCheckStatus_NotFound_iff_witness:
  "(let job = \<lparr>repository = ''acme/repo'', prNumber = 42, commentId = None\<rparr>;
        running = \<lparr>repository = ''acme/repo'', prNumber = 42, commentId = None,
                   timestamp = 1000, status = ''processing'', result = None\<rparr>;
        env = \<lparr>entries = [(''queue:acme/repo:42'', running)], writes = []\<rparr>;
        idle = \<lparr>entries = [], writes = []\<rparr>
    in kv_get idle (getQueueKey job) = None \<and>
       fst (updateCheckStatus job ''completed'' (Some ''fine'') idle) = Inl NotFound \<and>
       snd (updateCheckStatus job ''completed'' (Some ''fine'') idle) = idle \<and>
       kv_get env (getQueueKey job) = Some running \<and>
       updateCheckStatus job ''completed'' (Some ''fine'') env =
         (Inr (),
          \<lparr>entries = [(''queue:acme/repo:42'',
              running\<lparr>status := ''completed'', result := Some ''fine''\<rparr>)],
           writes = [Put ''queue:acme/repo:42''
              (running\<lparr>status := ''completed'', result := Some ''fine''\<rparr>)]\<rparr>))"
  using
    updateCheckStatus_NotFound_iff
      [of "\<lparr>repository = ''acme/repo'', prNumber = 42, commentId = None\<rparr>"
          "''completed''" "Some ''fine''" "\<lparr>entries = [], writes = []\<rparr>"]
    updateCheckStatus_NotFound_iff
      [of "\<lparr>repository = ''acme/repo'', prNumber = 42, commentId = None\<rparr>"
          "''completed''" "Some ''fine''"
          "\<lparr>entries = [(''queue:acme/repo:42'',
              \<lparr>repository = ''acme/repo'', prNumber = 42, commentId = None,
               timestamp = 1000, status = ''processing'', result = None\<rparr>)], writes = []\<rparr>"]
  by (simp add: Let_def kv_get_def kv_put_def getQueueKey_def toString_def toString_nat.simps)

text \<open>
  C6. For a record held under the job's key, the record that \<open>updateCheckStatus\<close> stores is
  the old one with only \<open>status\<close> and \<open>result\<close> updated: timestamp, repository, prNumber
  and commentId keep their values (the timestamp is the one \<open>enqueueCheck\<close> gave). The
  call makes exactly that one put, and no other key changes.
\<close>

theorem updateCheckStatus_frame:
  assumes "kv_get env (getQueueKey job) = Some check"
  shows "(\<exists>check' res'.
            getQueueStatus job (snd (updateCheckStatus job newStatus res env)) = Some check' \<and>
            check' = check\<lparr>status := newStatus, result := res'\<rparr> \<and>
            timestamp check' = timestamp check \<and>
            repository check' = repository check \<and>
            prNumber check' = prNumber check \<and>
            commentId check' = commentId check \<and>
            writes (snd (updateCheckStatus job newStatus res env)) =
              writes env @ [Put (getQueueKey job) check']) \<and>
         (key \<noteq> getQueueKey job \<longrightarrow>
            kv_get (snd (updateCheckStatus job newStatus res env)) key = kv_get env key)"
proof -
  define check' where "check' = check\<lparr>status := newStatus,
      result := (case res of
                   None \<Rightarrow> result check
                 | Some r \<Rightarrow> if r \<noteq> [] then Some r else result check)\<rparr>"
  have run: "updateCheckStatus job newStatus res env = (Inr (), kv_put (getQueueKey job) check' env)"
    unfolding check'_def using assms by (rule updateCheckStatus_present)
  have stored: "getQueueStatus job (snd (updateCheckStatus job newStatus res env)) = Some check'"
    by (simp add: run getQueueStatus_def kv_get_put)
  have shape: "check' = check\<lparr>status := newStatus, result := result check'\<rparr>"
    by (simp add: check'_def)
  have fields: "timestamp check' = timestamp check" "repository check' = repository check"
    "prNumber check' = prNumber check" "commentId check' = commentId check"
    by (simp_all add: check'_def)
  have log: "writes (snd (updateCheckStatus job newStatus res env)) =
      writes env @ [Put (getQueueKey job) check']"
    by (simp add: run writes_kv_put)
  have others: "kv_get (snd (updateCheckStatus job newStatus res env)) key = kv_get env key"
    if "key \<noteq> getQueueKey job"
    using that by (simp add: run kv_get_put)
  from stored shape fields log others show ?thesis
    by blast
qed

theorem updateCheckStatus_frame_witness:
  "kv_get \<lparr>entries = [(''queue:acme/repo:42'',
              \<lparr>repository = ''acme/repo'', prNumber = 42, commentId = Some 7,
               timestamp = 1000, status = ''processing'', result = None\<rparr>),
             (''queue:acme/repo:43'',
              \<lparr>repository = ''acme/repo'', prNumber = 43, commentId = None,
               timestamp = 500, status = ''pending'', result = None\<rparr>)], writes = []\<rparr>
      (getQueueKey \<lparr>repository = ''acme/repo'', prNumber = 42, commentId = Some 9\<rparr>) =
     Some \<lparr>repository = ''acme/repo'', prNumber = 42, commentId = Some 7,
           timestamp = 1000, status = ''processing'', result = None\<rparr> \<and>
   ''queue:acme/repo:43'' \<noteq>
     getQueueKey \<lparr>repository = ''acme/repo'', prNumber = 42, commentId = Some 9\<rparr> \<and>
   kv_get
     (snd (updateCheckStatus
        \<lparr>repository = ''acme/repo'', prNumber = 42, commentId = Some 9\<rparr>
        ''completed'' (Some ''fine'')
        \<lparr>entries = [(''queue:acme/repo:42'',
              \<lparr>repository = ''acme/repo'', prNumber = 42, commentId = Some 7,
               timestamp = 1000, status = ''processing'', result = None\<rparr>),
             (''queue:acme/repo:43'',
              \<lparr>repository = ''acme/repo'', prNumber = 43, commentId = None,
               timestamp = 500, status = ''pending'', result = None\<rparr>)], writes = []\<rparr>))
     ''queue:acme/repo:43'' =
     Some \<lparr>repository = ''acme/repo'', prNumber = 43, commentId = None,
           timestamp = 500, status = ''pending'', result = None\<rparr> \<and>
   (\<exists>res'.
      getQueueStatus \<lparr>repository = ''acme/repo'', prNumber = 42, commentId = Some 9\<rparr>
        (snd (updateCheckStatus
           \<lparr>repository = ''acme/repo'', prNumber = 42, commentId = Some 9\<rparr>
           ''completed'' (Some ''fine'')
           \<lparr>entries = [(''queue:acme/repo:42'',
                 \<lparr>repository = ''acme/repo'', prNumber = 42, commentId = Some 7,
                  timestamp = 1000, status = ''processing'', result = None\<rparr>),
                (''queue:acme/repo:43'',
                 \<lparr>repository = ''acme/repo'', prNumber = 43, commentId = None,
                  timestamp = 500, status = ''pending'', result = None\<rparr>)], writes = []\<rparr>)) =
        Some \<lparr>repository = ''acme/repo'', prNumber = 42, commentId = Some 7,
              timestamp = 1000, status = ''completed'', result = res'\<rparr>)"
proof -
  have h: "kv_get \<lparr>entries = [(''queue:acme/repo:42'',
              \<lparr>repository = ''acme/repo'', prNumber = 42, commentId = Some 7,
               timestamp = 1000, status = ''processing'', result = None\<rparr>),
             (''queue:acme/repo:43'',
              \<lparr>repository = ''acme/repo'', prNumber = 43, commentId = None,
               timestamp = 500, status = ''pending'', result = None\<rparr>)], writes = []\<rparr>
      (getQueueKey \<lparr>repository = ''acme/repo'', prNumber = 42, commentId = Some 9\<rparr>) =
    Some \<lparr>repository = ''acme/repo'', prNumber = 42, commentId = Some 7,
          timestamp = 1000, status = ''processing'', result = None\<rparr>"
    by code_simp
  have k: "''queue:acme/repo:43'' \<noteq>
      getQueueKey \<lparr>repository = ''acme/repo'', prNumber = 42, commentId = Some 9\<rparr>"
    by code_simp
  have o: "kv_get \<lparr>entries = [(''queue:acme/repo:42'',
              \<lparr>repository = ''acme/repo'', prNumber = 42, commentId = Some 7,
               timestamp = 1000, status = ''processing'', result = None\<rparr>),
             (''queue:acme/repo:43'',
              \<lparr>repository = ''acme/repo'', prNumber = 43, commentId = None,
               timestamp = 500, status = ''pending'', result = None\<rparr>)], writes = []\<rparr>
      ''queue:acme/repo:43'' =
    Some \<lparr>repository = ''acme/repo'', prNumber = 43, commentId = None,
          timestamp = 500, status = ''pending'', result = None\<rparr>"
    by code_simp
  show ?thesis
    using h k o updateCheckStatus_frame
      [OF h, of "''completed''" "Some ''fine''" "''queue:acme/repo:43''"]
    by auto
qed

section \<open>The sweep\<close>

text \<open>
  C7. \<open>cleanOldChecks\<close> runs to its end without throwing, and afterwards a key that
  starts with \<open>queue:\<close> and held a record whose timestamp was more than 3600000 ms before
  the clock reading holds nothing, whatever the status of the record was; a key whose
  record had a timestamp within 3600000 ms holds the same record; a key outside the prefix
  is as it was; and a key that held nothing still holds nothing.
\<close>

theorem cleanOldChecks_deletes_exactly_stale:
  "fst (cleanOldChecks env now) = Inr () \<and>
   (\<forall>check. kv_get env key = Some check \<and> prefix ''queue:'' key \<and>
        timestamp check < now - 3600000 \<longrightarrow>
      kv_get (snd (cleanOldChecks env now)) key = None) \<and>
   (\<forall>check. kv_get env key = Some check \<and> now - 3600000 \<le> timestamp check \<longrightarrow>
      kv_get (snd (cleanOldChecks env now)) key = Some check) \<and>
   (\<not> prefix ''queue:'' key \<longrightarrow>
      kv_get (snd (cleanOldChecks env now)) key = kv_get env key) \<and>
   (kv_get env key = None \<longrightarrow> kv_get (snd (cleanOldChecks env now)) key = None)"
  using cleanOldChecks_get [of env now key]
  by (auto split: option.splits)

theorem cleanOldChecks_deletes_exactly_stale_witness:
  "kv_get \<lparr>entries =
       [(''queue:acme/repo:1'',
         \<lparr>repository = ''acme/repo'', prNumber = 1, commentId = None,
          timestamp = 999999, status = ''processing'', result = None\<rparr>),
        (''queue:acme/repo:2'',
         \<lparr>repository = ''acme/repo'', prNumber = 2, commentId = None,
          timestamp = 1000000, status = ''completed'', result = Some ''ok''\<rparr>),
        (''other:acme/repo:3'',
         \<lparr>repository = ''acme/repo'', prNumber = 3, commentId = None,
          timestamp = 5, status = ''pending'', result = None\<rparr>)],
      writes = []\<rparr> ''queue:acme/repo:1'' =
     Some \<lparr>repository = ''acme/repo'', prNumber = 1, commentId = None,
           timestamp = 999999, status = ''processing'', result = None\<rparr> \<and>
   prefix ''queue:'' ''queue:acme/repo:1'' \<and>
   (999999 :: int) < 4600000 - 3600000 \<and>
   fst (cleanOldChecks \<lparr>entries =
       [(''queue:acme/repo:1'',
         \<lparr>repository = ''acme/repo'', prNumber = 1, commentId = None,
          timestamp = 999999, status = ''processing'', result = None\<rparr>),
        (''queue:acme/repo:2'',
         \<lparr>repository = ''acme/repo'', prNumber = 2, commentId = None,
          timestamp = 1000000, status = ''completed'', result = Some ''ok''\<rparr>),
        (''other:acme/repo:3'',
         \<lparr>repository = ''acme/repo'', prNumber = 3, commentId = None,
          timestamp = 5, status = ''pending'', result = None\<rparr>)],
      writes = []\<rparr> 4600000) = Inr () \<and>
   kv_get (snd (cleanOldChecks \<lparr>entries =
       [(''queue:acme/repo:1'',
         \<lparr>repository = ''acme/repo'', prNumber = 1, commentId = None,
          timestamp = 999999, status = ''processing'', result = None\<rparr>),
        (''queue:acme/repo:2'',
         \<lparr>repository = ''acme/repo'', prNumber = 2, commentId = None,
          timestamp = 1000000, status = ''completed'', result = Some ''ok''\<rparr>),
        (''other:acme/repo:3'',
         \<lparr>repository = ''acme/repo'', prNumber = 3, commentId = None,
          timestamp = 5, status = ''pending'', result = None\<rparr>)],
      writes = []\<rparr> 4600000)) ''queue:acme/repo:1'' = None \<and>
   cleanOldChecks \<lparr>entries =
       [(''queue:acme/repo:1'',
         \<lparr>repository = ''acme/repo'', prNumber = 1, commentId = None,
          timestamp = 999999, status = ''processing'', result = None\<rparr>),
        (''queue:acme/repo:2'',
         \<lparr>repository = ''acme/repo'', prNumber = 2, commentId = None,
          timestamp = 1000000, status = ''completed'', result = Some ''ok''\<rparr>),
        (''other:acme/repo:3'',
         \<lparr>repository = ''acme/repo'', prNumber = 3, commentId = None,
          timestamp = 5, status = ''pending'', result = None\<rparr>)],
      writes = []\<rparr> 4600000 = (Inr (), \<lparr>entries =
       [(''queue:acme/repo:2'',
         \<lparr>repository = ''acme/repo'', prNumber = 2, commentId = None,
          timestamp = 1000000, status = ''completed'', result = Some ''ok''\<rparr>),
        (''other:acme/repo:3'',
         \<lparr>repository = ''acme/repo'', prNumber = 3, commentId = None,
          timestamp = 5, status = ''pending'', result = None\<rparr>)],
      writes = [Delete ''queue:acme/repo:1'']\<rparr>)"
proof -
  have e: "cleanOldChecks \<lparr>entries =
       [(''queue:acme/repo:1'',
         \<lparr>repository = ''acme/repo'', prNumber = 1, commentId = None,
          timestamp = 999999, status = ''processing'', result = None\<rparr>),
        (''queue:acme/repo:2'',
         \<lparr>repository = ''acme/repo'', prNumber = 2, commentId = None,
          timestamp = 1000000, status = ''completed'', result = Some ''ok''\<rparr>),
        (''other:acme/repo:3'',
         \<lparr>repository = ''acme/repo'', prNumber = 3, commentId = None,
          timestamp = 5, status = ''pending'', result = None\<rparr>)],
      writes = []\<rparr> 4600000 = (Inr (), \<lparr>entries =
       [(''queue:acme/repo:2'',
         \<lparr>repository = ''acme/repo'', prNumber = 2, commentId = None,
          timestamp = 1000000, status = ''completed'', result = Some ''ok''\<rparr>),
        (''other:acme/repo:3'',
         \<lparr>repository = ''acme/repo'', prNumber = 3, commentId = None,
          timestamp = 5, status = ''pending'', result = None\<rparr>)],
      writes = [Delete ''queue:acme/repo:1'']\<rparr>)"
    by code_simp
  have h: "kv_get \<lparr>entries =
       [(''queue:acme/repo:1'',
         \<lparr>repository = ''acme/repo'', prNumber = 1, commentId = None,
          timestamp = 999999, status = ''processing'', result = None\<rparr>),
        (''queue:acme/repo:2'',
         \<lparr>repository = ''acme/repo'', prNumber = 2, commentId = None,
          timestamp = 1000000, status = ''completed'', result = Some ''ok''\<rparr>),
        (''other:acme/repo:3'',
         \<lparr>repository = ''acme/repo'', prNumber = 3, commentId = None,
          timestamp = 5, status = ''pending'', result = None\<rparr>)],
      writes = []\<rparr> ''queue:acme/repo:1'' =
     Some \<lparr>repository = ''acme/repo'', prNumber = 1, commentId = None,
           timestamp = 999999, status = ''processing'', result = None\<rparr>"
    by code_simp
  have p: "prefix ''queue:'' ''queue:acme/repo:1''"
    by simp
  show ?thesis
    using h p e cleanOldChecks_deletes_exactly_stale
      [of "\<lparr>entries =
       [(''queue:acme/repo:1'',
         \<lparr>repository = ''acme/repo'', prNumber = 1, commentId = None,
          timestamp = 999999, status = ''processing'', result = None\<rparr>),
        (''queue:acme/repo:2'',
         \<lparr>repository = ''acme/repo'', prNumber = 2, commentId = None,
          timestamp = 1000000, status = ''completed'', result = Some ''ok''\<rparr>),
        (''other:acme/repo:3'',
         \<lparr>repository = ''acme/repo'', prNumber = 3, commentId = None,
          timestamp = 5, status = ''pending'', result = None\<rparr>)],
      writes = []\<rparr>" 4600000 "''queue:acme/repo:1''"]
    by simp
qed

section \<open>Rate limiting\<close>

lemma getRateLimitState_stored:
  "getRateLimitState (updateRateLimitState state env) now0 = state"
  by (simp add: getRateLimitState_def updateRateLimitState_def kv_get_put)

lemma getRateLimitState_put:
  "getRateLimitState (kv_put ''rate_limit'' state env) now0 = state"
  by (simp add: getRateLimitState_def kv_get_put)

lemma checkRateLimit_within_window:
  "now - RateLimitState.timestamp (getRateLimitState env now0) < 60000 \<Longrightarrow>
   checkRateLimit tokenCount env now0 now =
     (let state = getRateLimitState env now0
      in if 5 \<le> requestCount state then (Inl TooManyRequests, env)
         else if 10000 \<le> inputTokens state + tokenCount then (Inl TooManyInputTokens, env)
         else (Inr (),
               updateRateLimitState
                 (state\<lparr>requestCount := requestCount state + 1,
                         inputTokens := inputTokens state + tokenCount\<rparr>) env))"
  by (simp add: checkRateLimit_def Let_def requestsPerMinute_def inputTokensPerMinute_def)

lemma checkRateLimit_after_window:
  "60000 \<le> now - RateLimitState.timestamp (getRateLimitState env now0) \<Longrightarrow>
   checkRateLimit tokenCount env now0 now =
     (if 10000 \<le> tokenCount then (Inl TooManyInputTokens, env)
      else (Inr (),
            updateRateLimitState
              \<lparr>requestCount = 1, inputTokens = tokenCount, outputTokens = 0,
               RateLimitState.timestamp = now\<rparr> env))"
proof -
  obtain rc it ot ts where
    "getRateLimitState env now0 =
       \<lparr>requestCount = rc, inputTokens = it, outputTokens = ot, RateLimitState.timestamp = ts\<rparr>"
    by (cases "getRateLimitState env now0")
  moreover assume "60000 \<le> now - RateLimitState.timestamp (getRateLimitState env now0)"
  ultimately show ?thesis
    by (simp add: checkRateLimit_def Let_def requestsPerMinute_def inputTokensPerMinute_def)
qed

text \<open>One admitted call inside the window, on a state given by its four fields.\<close>

lemma checkRateLimit_admit:
  assumes "getRateLimitState env now0 =
             \<lparr>requestCount = rc, inputTokens = it, outputTokens = ot,
              RateLimitState.timestamp = w\<rparr>"
      and "now - w < 60000" and "rc < 5" and "it + tokenCount < 10000"
  shows "checkRateLimit tokenCount env now0 now =
           (Inr (),
            updateRateLimitState
              \<lparr>requestCount = rc + 1, inputTokens = it + tokenCount, outputTokens = ot,
               RateLimitState.timestamp = w\<rparr> env)"
  using assms by (simp add: checkRateLimit_within_window Let_def)

text \<open>
  C8. From a state whose request count and input tokens are zero (nothing stored yet, or
  a stored state with these counts at zero), five consecutive calls of \<open>checkRateLimit\<close>
  whose clock readings are within 60000 ms of the window start and whose token counts add
  up to less than 10000 at every call all succeed, and a sixth call in the same window
  fails with the too-many-requests error; the stored state then counts the five calls and
  their tokens. A call made 60000 ms or more after the stored window start, with a token
  count below 10000, succeeds and stores a state that counts only this call: one request,
  its tokens, no output tokens, and the window start at the clock reading.
\<close>

theorem checkRateLimit_five_per_window:
  "(getRateLimitState env a1 =
      \<lparr>requestCount = 0, inputTokens = 0, outputTokens = ot, RateLimitState.timestamp = w\<rparr> \<and>
    n1 - w < 60000 \<and> n2 - w < 60000 \<and> n3 - w < 60000 \<and>
    n4 - w < 60000 \<and> n5 - w < 60000 \<and> n6 - w < 60000 \<and>
    t1 < 10000 \<and> t1 + t2 < 10000 \<and> t1 + t2 + t3 < 10000 \<and>
    t1 + t2 + t3 + t4 < 10000 \<and> t1 + t2 + t3 + t4 + t5 < 10000 \<longrightarrow>
    fst (checkRateLimit_calls
           [(t1, a1, n1), (t2, a2, n2), (t3, a3, n3), (t4, a4, n4), (t5, a5, n5), (t6, a6, n6)]
           env) =
      [Inr (), Inr (), Inr (), Inr (), Inr (), Inl TooManyRequests] \<and>
    RateLimitExceeded TooManyRequests \<and>
    kv_get (snd (checkRateLimit_calls
           [(t1, a1, n1), (t2, a2, n2), (t3, a3, n3), (t4, a4, n4), (t5, a5, n5), (t6, a6, n6)]
           env)) ''rate_limit'' =
      Some \<lparr>requestCount = 5, inputTokens = t1 + t2 + t3 + t4 + t5, outputTokens = ot,
            RateLimitState.timestamp = w\<rparr>) \<and>
   (60000 \<le> now - RateLimitState.timestamp (getRateLimitState env now0) \<and>
    tokenCount < 10000 \<longrightarrow>
    checkRateLimit tokenCount env now0 now =
      (Inr (),
       kv_put ''rate_limit''
         \<lparr>requestCount = 1, inputTokens = tokenCount, outputTokens = 0,
          RateLimitState.timestamp = now\<rparr> env) \<and>
    kv_get (snd (checkRateLimit tokenCount env now0 now)) ''rate_limit'' =
      Some \<lparr>requestCount = 1, inputTokens = tokenCount, outputTokens = 0,
            RateLimitState.timestamp = now\<rparr>)"
proof (intro conjI impI)
  assume a: "getRateLimitState env a1 =
      \<lparr>requestCount = 0, inputTokens = 0, outputTokens = ot, RateLimitState.timestamp = w\<rparr> \<and>
    n1 - w < 60000 \<and> n2 - w < 60000 \<and> n3 - w < 60000 \<and>
    n4 - w < 60000 \<and> n5 - w < 60000 \<and> n6 - w < 60000 \<and>
    t1 < 10000 \<and> t1 + t2 < 10000 \<and> t1 + t2 + t3 < 10000 \<and>
    t1 + t2 + t3 + t4 < 10000 \<and> t1 + t2 + t3 + t4 + t5 < 10000"
  define s where "s k it = \<lparr>requestCount = k, inputTokens = it, outputTokens = ot,
      RateLimitState.timestamp = w\<rparr>" for k it
  define env1 where "env1 = updateRateLimitState (s 1 t1) env"
  define env2 where "env2 = updateRateLimitState (s 2 (t1 + t2)) env1"
  define env3 where "env3 = updateRateLimitState (s 3 (t1 + t2 + t3)) env2"
  define env4 where "env4 = updateRateLimitState (s 4 (t1 + t2 + t3 + t4)) env3"
  define env5 where "env5 = updateRateLimitState (s 5 (t1 + t2 + t3 + t4 + t5)) env4"
  have c1: "checkRateLimit t1 env a1 n1 = (Inr (), env1)"
    using a checkRateLimit_admit [of env a1 0 0 ot w n1 t1] by (simp add: env1_def s_def)
  have c2: "checkRateLimit t2 env1 a2 n2 = (Inr (), env2)"
    using a checkRateLimit_admit [of env1 a2 1 t1 ot w n2 t2]
    by (simp add: env1_def env2_def s_def getRateLimitState_stored)
  have c3: "checkRateLimit t3 env2 a3 n3 = (Inr (), env3)"
    using a checkRateLimit_admit [of env2 a3 2 "t1 + t2" ot w n3 t3]
    by (simp add: env2_def env3_def s_def getRateLimitState_stored)
  have c4: "checkRateLimit t4 env3 a4 n4 = (Inr (), env4)"
    using a checkRateLimit_admit [of env3 a4 3 "t1 + t2 + t3" ot w n4 t4]
    by (simp add: env3_def env4_def s_def getRateLimitState_stored)
  have c5: "checkRateLimit t5 env4 a5 n5 = (Inr (), env5)"
    using a checkRateLimit_admit [of env4 a5 4 "t1 + t2 + t3 + t4" ot w n5 t5]
    by (simp add: env4_def env5_def s_def getRateLimitState_stored)
  have c6: "checkRateLimit t6 env5 a6 n6 = (Inl TooManyRequests, env5)"
    using a checkRateLimit_within_window [of n6 env5 a6 t6]
    by (simp add: env5_def s_def getRateLimitState_stored Let_def)
  have run: "checkRateLimit_calls
      [(t1, a1, n1), (t2, a2, n2), (t3, a3, n3), (t4, a4, n4), (t5, a5, n5), (t6, a6, n6)] env =
      ([Inr (), Inr (), Inr (), Inr (), Inr (), Inl TooManyRequests], env5)"
    by (simp add: c1 c2 c3 c4 c5 c6)
  show "fst (checkRateLimit_calls
      [(t1, a1, n1), (t2, a2, n2), (t3, a3, n3), (t4, a4, n4), (t5, a5, n5), (t6, a6, n6)] env) =
      [Inr (), Inr (), Inr (), Inr (), Inr (), Inl TooManyRequests]"
    by (simp only: run fst_conv)
  show "kv_get (snd (checkRateLimit_calls
      [(t1, a1, n1), (t2, a2, n2), (t3, a3, n3), (t4, a4, n4), (t5, a5, n5), (t6, a6, n6)] env))
      ''rate_limit'' =
      Some \<lparr>requestCount = 5, inputTokens = t1 + t2 + t3 + t4 + t5, outputTokens = ot,
            RateLimitState.timestamp = w\<rparr>"
    by (simp only: run snd_conv) (simp add: env5_def s_def updateRateLimitState_def kv_get_put)
next
  show "RateLimitExceeded TooManyRequests"
    by (simp add: RateLimitExceeded_def TooManyRequests_def)
next
  assume b: "60000 \<le> now - RateLimitState.timestamp (getRateLimitState env now0) \<and>
    tokenCount < 10000"
  then have run: "checkRateLimit tokenCount env now0 now =
      (Inr (),
       kv_put ''rate_limit''
         \<lparr>requestCount = 1, inputTokens = tokenCount, outputTokens = 0,
          RateLimitState.timestamp = now\<rparr> env)"
    by (simp add: checkRateLimit_after_window updateRateLimitState_def)
  then show "checkRateLimit tokenCount env now0 now =
      (Inr (),
       kv_put ''rate_limit''
         \<lparr>requestCount = 1, inputTokens = tokenCount, outputTokens = 0,
          RateLimitState.timestamp = now\<rparr> env)" .
  show "kv_get (snd (checkRateLimit tokenCount env now0 now)) ''rate_limit'' =
      Some \<lparr>requestCount = 1, inputTokens = tokenCount, outputTokens = 0,
            RateLimitState.timestamp = now\<rparr>"
    by (simp add: run kv_get_put)
qed

theorem checkRateLimit_five_per_window_witness:
  "getRateLimitState \<lparr>entries = [], writes = []\<rparr> 1000 =
     \<lparr>requestCount = 0, inputTokens = 0, outputTokens = 0, RateLimitState.timestamp = 1000\<rparr> \<and>
   fst (checkRateLimit_calls
          [(1999, 1000, 1000), (1999, 2000, 2000), (1999, 3000, 3000), (1999, 4000, 4000),
           (1999, 5000, 5000), (1, 60999, 60999)]
          \<lparr>entries = [], writes = []\<rparr>) =
     [Inr (), Inr (), Inr (), Inr (), Inr (), Inl TooManyRequests] \<and>
   kv_get (snd (checkRateLimit_calls
          [(1999, 1000, 1000), (1999, 2000, 2000), (1999, 3000, 3000), (1999, 4000, 4000),
           (1999, 5000, 5000), (1, 60999, 60999)]
          \<lparr>entries = [], writes = []\<rparr>)) ''rate_limit'' =
     Some \<lparr>requestCount = 5, inputTokens = 9995, outputTokens = 0,
           RateLimitState.timestamp = 1000\<rparr> \<and>
   (60000 :: int) \<le> 61000 - RateLimitState.timestamp (getRateLimitState
      \<lparr>entries = [(''rate_limit'',
          \<lparr>requestCount = 5, inputTokens = 9995, outputTokens = 0,
           RateLimitState.timestamp = 1000\<rparr>)], writes = []\<rparr> 61000) \<and>
   kv_get (snd (checkRateLimit 7
      \<lparr>entries = [(''rate_limit'',
          \<lparr>requestCount = 5, inputTokens = 9995, outputTokens = 0,
           RateLimitState.timestamp = 1000\<rparr>)], writes = []\<rparr> 61000 61000)) ''rate_limit'' =
     Some \<lparr>requestCount = 1, inputTokens = 7, outputTokens = 0,
           RateLimitState.timestamp = 61000\<rparr>"
proof -
  have h: "getRateLimitState \<lparr>entries = [], writes = []\<rparr> 1000 =
     \<lparr>requestCount = 0, inputTokens = 0, outputTokens = 0, RateLimitState.timestamp = 1000\<rparr>"
    by code_simp
  have g: "(60000 :: int) \<le> 61000 - RateLimitState.timestamp (getRateLimitState
      \<lparr>entries = [(''rate_limit'',
          \<lparr>requestCount = 5, inputTokens = 9995, outputTokens = 0,
           RateLimitState.timestamp = 1000\<rparr>)], writes = []\<rparr> 61000)"
    by code_simp
  show ?thesis
    using h g
      checkRateLimit_five_per_window
        [where env = "\<lparr>entries = [], writes = []\<rparr>" and ot = 0 and w = 1000
           and ?a1.0 = 1000 and ?n1.0 = 1000 and ?t1.0 = 1999
           and ?a2.0 = 2000 and ?n2.0 = 2000 and ?t2.0 = 1999
           and ?a3.0 = 3000 and ?n3.0 = 3000 and ?t3.0 = 1999
           and ?a4.0 = 4000 and ?n4.0 = 4000 and ?t4.0 = 1999
           and ?a5.0 = 5000 and ?n5.0 = 5000 and ?t5.0 = 1999
           and ?a6.0 = 60999 and ?n6.0 = 60999 and ?t6.0 = 1, THEN conjunct1]
      checkRateLimit_five_per_window
        [where env = "\<lparr>entries = [(''rate_limit'',
            \<lparr>requestCount = 5, inputTokens = 9995, outputTokens = 0,
             RateLimitState.timestamp = 1000\<rparr>)], writes = []\<rparr>"
           and ?now0.0 = 61000 and now = 61000 and tokenCount = 7, THEN conjunct2]
    by (simp add: kv_get_put)
qed

text \<open>
  C10. Whenever \<open>checkRateLimit\<close> fails, the error is a rate-limit error and the
  namespace is exactly what it was before the call: nothing is written, neither an
  increment nor the window reset that the call may have made on the loaded state.
\<close>

theorem checkRateLimit_failure_writes_nothing:
  assumes "fst (checkRateLimit tokenCount env now0 now) = Inl e"
  shows "snd (checkRateLimit tokenCount env now0 now) = env \<and> RateLimitExceeded e"
  using assms
  by (auto simp: checkRateLimit_def Let_def RateLimitExceeded_def TooManyRequests_def
        TooManyInputTokens_def split: if_splits)

theorem checkRateLimit_failure_writes_nothing_witness:
  "fst (checkRateLimit 10000
      \<lparr>entries = [(''rate_limit'',
          \<lparr>requestCount = 3, inputTokens = 500, outputTokens = 100,
           RateLimitState.timestamp = 1000\<rparr>)], writes = []\<rparr> 61000 61000) =
     Inl TooManyInputTokens \<and>
   snd (checkRateLimit 10000
      \<lparr>entries = [(''rate_limit'',
          \<lparr>requestCount = 3, inputTokens = 500, outputTokens = 100,
           RateLimitState.timestamp = 1000\<rparr>)], writes = []\<rparr> 61000 61000) =
     \<lparr>entries = [(''rate_limit'',
          \<lparr>requestCount = 3, inputTokens = 500, outputTokens = 100,
           RateLimitState.timestamp = 1000\<rparr>)], writes = []\<rparr> \<and>
   fst (checkRateLimit 1
      \<lparr>entries = [(''rate_limit'',
          \<lparr>requestCount = 5, inputTokens = 500, outputTokens = 100,
           RateLimitState.timestamp = 1000\<rparr>)], writes = []\<rparr> 2000 2000) =
     Inl TooManyRequests \<and>
   snd (checkRateLimit 1
      \<lparr>entries = [(''rate_limit'',
          \<lparr>requestCount = 5, inputTokens = 500, outputTokens = 100,
           RateLimitState.timestamp = 1000\<rparr>)], writes = []\<rparr> 2000 2000) =
     \<lparr>entries = [(''rate_limit'',
          \<lparr>requestCount = 5, inputTokens = 500, outputTokens = 100,
           RateLimitState.timestamp = 1000\<rparr>)], writes = []\<rparr>"
proof -
  have h1: "fst (checkRateLimit 10000
      \<lparr>entries = [(''rate_limit'',
          \<lparr>requestCount = 3, inputTokens = 500, outputTokens = 100,
           RateLimitState.timestamp = 1000\<rparr>)], writes = []\<rparr> 61000 61000) =
     Inl TooManyInputTokens"
    by code_simp
  have h2: "fst (checkRateLimit 1
      \<lparr>entries = [(''rate_limit'',
          \<lparr>requestCount = 5, inputTokens = 500, outputTokens = 100,
           RateLimitState.timestamp = 1000\<rparr>)], writes = []\<rparr> 2000 2000) =
     Inl TooManyRequests"
    by code_simp
  show ?thesis
    using h1 h2 checkRateLimit_failure_writes_nothing [OF h1]
      checkRateLimit_failure_writes_nothing [OF h2]
    by simp
qed

text \<open>
  C1, as stated, fails: with 1990 output tokens stored and an estimate of 20,
  \<open>recordOutput\<close> throws before it stores anything, so the stored count is still 1990 and
  not 2010.
\<close>

theorem recordOutput_counterexample:
  "kv_get \<lparr>entries = [(''rate_limit'',
        \<lparr>requestCount = 1, inputTokens = 100, outputTokens = 1990,
         RateLimitState.timestamp = 1000\<rparr>)], writes = []\<rparr> ''rate_limit'' =
     Some \<lparr>requestCount = 1, inputTokens = 100, outputTokens = 1990,
           RateLimitState.timestamp = 1000\<rparr> \<and>
   recordOutput 20
     \<lparr>entries = [(''rate_limit'',
        \<lparr>requestCount = 1, inputTokens = 100, outputTokens = 1990,
         RateLimitState.timestamp = 1000\<rparr>)], writes = []\<rparr> 2000 =
     (Inl TooManyOutputTokens,
      \<lparr>entries = [(''rate_limit'',
        \<lparr>requestCount = 1, inputTokens = 100, outputTokens = 1990,
         RateLimitState.timestamp = 1000\<rparr>)], writes = []\<rparr>) \<and>
   outputTokens (getRateLimitState (snd (recordOutput 20
     \<lparr>entries = [(''rate_limit'',
        \<lparr>requestCount = 1, inputTokens = 100, outputTokens = 1990,
         RateLimitState.timestamp = 1000\<rparr>)], writes = []\<rparr> 2000)) 2001) = 1990 \<and>
   (1990 :: int) \<noteq> 1990 + 20"
  by code_simp

text \<open>
  C1, amended. \<open>recordOutput\<close> adds the estimate to the output tokens of the loaded state.
  When the new total is 2000 or more it fails with the too-many-output-tokens error and
  leaves the namespace as it was, without a write; when the new total is below 2000 it
  succeeds and stores the updated state, so that the stored output tokens are the old ones
  plus the estimate.
\<close>

theorem recordOutput_persists_only_on_success:
  "(let old = outputTokens (getRateLimitState env now0);
        state = (getRateLimitState env now0)\<lparr>outputTokens := old + outputTokensThisMinute\<rparr>
    in (2000 \<le> old + outputTokensThisMinute \<longrightarrow>
          recordOutput outputTokensThisMinute env now0 = (Inl TooManyOutputTokens, env) \<and>
          RateLimitExceeded TooManyOutputTokens) \<and>
       (old + outputTokensThisMinute < 2000 \<longrightarrow>
          recordOutput outputTokensThisMinute env now0 =
            (Inr (), kv_put ''rate_limit'' state env) \<and>
          kv_get (snd (recordOutput outputTokensThisMinute env now0)) ''rate_limit'' = Some state \<and>
          outputTokens (getRateLimitState (snd (recordOutput outputTokensThisMinute env now0)) now1) =
            old + outputTokensThisMinute))"
  by (simp add: recordOutput_def Let_def outputTokensPerMinute_def updateRateLimitState_def
        kv_get_put RateLimitExceeded_def TooManyOutputTokens_def getRateLimitState_def)

theorem recordOutput_persists_only_on_success_witness:
  "outputTokens (getRateLimitState
      \<lparr>entries = [(''rate_limit'',
        \<lparr>requestCount = 1, inputTokens = 100, outputTokens = 1990,
         RateLimitState.timestamp = 1000\<rparr>)], writes = []\<rparr> 2000) + 9 < 2000 \<and>
   outputTokens (getRateLimitState (snd (recordOutput 9
      \<lparr>entries = [(''rate_limit'',
        \<lparr>requestCount = 1, inputTokens = 100, outputTokens = 1990,
         RateLimitState.timestamp = 1000\<rparr>)], writes = []\<rparr> 2000)) 2001) = 1999 \<and>
   2000 \<le> outputTokens (getRateLimitState
      \<lparr>entries = [(''rate_limit'',
        \<lparr>requestCount = 1, inputTokens = 100, outputTokens = 1990,
         RateLimitState.timestamp = 1000\<rparr>)], writes = []\<rparr> 2000) + 10 \<and>
   recordOutput 10
      \<lparr>entries = [(''rate_limit'',
        \<lparr>requestCount = 1, inputTokens = 100, outputTokens = 1990,
         RateLimitState.timestamp = 1000\<rparr>)], writes = []\<rparr> 2000 =
     (Inl TooManyOutputTokens,
      \<lparr>entries = [(''rate_limit'',
        \<lparr>requestCount = 1, inputTokens = 100, outputTokens = 1990,
         RateLimitState.timestamp = 1000\<rparr>)], writes = []\<rparr>)"
proof -
  have old: "outputTokens (getRateLimitState
      \<lparr>entries = [(''rate_limit'',
        \<lparr>requestCount = 1, inputTokens = 100, outputTokens = 1990,
         RateLimitState.timestamp = 1000\<rparr>)], writes = []\<rparr> 2000) = 1990"
    by code_simp
  show ?thesis
    using old
      recordOutput_persists_only_on_success
        [where env = "\<lparr>entries = [(''rate_limit'',
            \<lparr>requestCount = 1, inputTokens = 100, outputTokens = 1990,
             RateLimitState.timestamp = 1000\<rparr>)], writes = []\<rparr>"
           and ?now0.0 = 2000 and outputTokensThisMinute = 9 and ?now1.0 = 2001]
      recordOutput_persists_only_on_success
        [where env = "\<lparr>entries = [(''rate_limit'',
            \<lparr>requestCount = 1, inputTokens = 100, outputTokens = 1990,
             RateLimitState.timestamp = 1000\<rparr>)], writes = []\<rparr>"
           and ?now0.0 = 2000 and outputTokensThisMinute = 10 and ?now1.0 = 2001]
    by (simp add: Let_def getRateLimitState_put)
qed

end
